theory Spec2Isabelle
  imports Complex_Main "HOL-Library.AList"
begin

section \<open>Practice-Track: replication of media items and their tempo markers\<close>

text \<open>
  A shallow embedding of \<^verbatim>\<open>PTKmodules/PTKclasses.py\<close>. Time positions, lengths and
  tempi are Python floats in the source; they are modelled as exact real numbers, so
  rounding is not part of the model, and the literal \<^verbatim>\<open>.001\<close> is the real
  \<open>1/1000\<close>. Python integers are \<open>int\<close>. Console output (\<^verbatim>\<open>dbg\<close>,
  \<^verbatim>\<open>RunTimer\<close>, \<^verbatim>\<open>dump\<close>) is not modelled: it changes nothing in the project.
\<close>

subsection \<open>Errors, host calls and the host's answers\<close>

datatype error = ValueError | IndexError | KeyError | AssertionError | ZeroDivisionError

type_synonym MediaItem = int
type_synonym MediaTrack = int

text \<open>
  Every call of the script that changes the host (the \<^verbatim>\<open>RPR_\<close> functions that set,
  delete, select, nudge or refresh) is recorded, with its arguments, in the order of the
  calls. \<open>SetTempoTimeSigMarker\<close> carries proj, ptidx, timepos, measurepos, beatpos, bpm,
  timesig_num, timesig_denom, lineartempo.
\<close>

datatype host_call =
    PreventUIRefresh int
  | DeleteTempoTimeSigMarker int int
  | SelectAllMediaItems int bool
  | SetMediaItemSelected MediaItem bool
  | SetMediaItemInfo_Value MediaItem string real
  | ApplyNudge int int int int real bool int
  | SetTempoTimeSigMarker int int real int real real int int bool
  | UpdateArrange

type_synonym trace = "host_call list"

text \<open>
  The three results of \<^verbatim>\<open>userInputs\<close>: None, False, or the Map of the two fields
  ndups and nbetween, in this order.
\<close>

datatype user_inputs = UNone | UFalse | UMap int int

text \<open>
  The host is deterministic: what it answers to a query, and whether it accepts a marker,
  is a function of the calls made so far. The answer of \<^verbatim>\<open>RPR_GetTempoTimeSigMarker\<close>
  is (retval, timepos, measurepos, beatpos, bpm, timesig_num, timesig_denom,
  lineartempo); the in-arguments proj and ptidx come back unchanged. The answer of
  \<^verbatim>\<open>RPR_TimeMap2_timeToBeats\<close> is (beats since the measure's start, measure length
  in beats, time signature denominator), the entries 0, 4 and 6 of the source's retlist.
\<close>

record reaper =
  userInputs :: user_inputs
  CountTempoTimeSigMarkers :: "trace \<Rightarrow> int \<Rightarrow> int"
  GetTempoTimeSigMarker ::
    "trace \<Rightarrow> int \<Rightarrow> int \<Rightarrow> bool \<times> real \<times> int \<times> real \<times> real \<times> int \<times> int \<times> bool"
  SetTempoTimeSigMarker_ok :: "trace \<Rightarrow> bool"
  CountSelectedMediaItems :: "trace \<Rightarrow> int \<Rightarrow> int"
  GetSelectedMediaItem :: "trace \<Rightarrow> int \<Rightarrow> int \<Rightarrow> MediaItem"
  GetMediaItemInfo_Value :: "trace \<Rightarrow> MediaItem \<Rightarrow> string \<Rightarrow> real"
  TimeMap2_timeToBeats :: "trace \<Rightarrow> int \<Rightarrow> real \<Rightarrow> real \<times> int \<times> int"
  TimeMap2_GetDividedBpmAtTime :: "trace \<Rightarrow> int \<Rightarrow> real \<Rightarrow> real"
  GetMediaItem_Track :: "trace \<Rightarrow> MediaItem \<Rightarrow> MediaTrack"
  CountTrackMediaItems :: "trace \<Rightarrow> MediaTrack \<Rightarrow> int"
  GetTrackMediaItem :: "trace \<Rightarrow> MediaTrack \<Rightarrow> int \<Rightarrow> MediaItem"

text \<open>
  A computation takes the calls made so far and gives back a value or the raised error,
  with the calls made up to that point.
\<close>

type_synonym 'a io = "trace \<Rightarrow> (error + 'a) \<times> trace"

definition ret :: "'a \<Rightarrow> 'a io" where
  "ret x tr = (Inr x, tr)"

definition raise :: "error \<Rightarrow> 'a io" where
  "raise e tr = (Inl e, tr)"

definition call :: "host_call \<Rightarrow> unit io" where
  "call c tr = (Inr (), tr @ [c])"

definition bind :: "'a io \<Rightarrow> ('a \<Rightarrow> 'b io) \<Rightarrow> 'b io" where
  "bind m f tr = (case m tr of (Inl e, tr') \<Rightarrow> (Inl e, tr') | (Inr x, tr') \<Rightarrow> f x tr')"

definition query :: "(trace \<Rightarrow> 'a) \<Rightarrow> 'a io" where
  "query q tr = (Inr (q tr), tr)"

definition lift :: "error + 'a \<Rightarrow> 'a io" where
  "lift r tr = (r, tr)"

text \<open>A list built by a loop that appends one result per element.\<close>

fun mapM :: "('a \<Rightarrow> 'b io) \<Rightarrow> 'a list \<Rightarrow> 'b list io" where
  "mapM f [] = ret []"
| "mapM f (x # xs) = bind (f x) (\<lambda>y. bind (mapM f xs) (\<lambda>ys. ret (y # ys)))"

text \<open>A loop run for its effects.\<close>

fun for_each :: "'a list \<Rightarrow> ('a \<Rightarrow> unit io) \<Rightarrow> unit io" where
  "for_each [] f = ret ()"
| "for_each (x # xs) f = bind (f x) (\<lambda>_. for_each xs f)"

text \<open>\<^verbatim>\<open>range(n)\<close>: empty when \<open>n \<le> 0\<close>.\<close>

definition range_py :: "int \<Rightarrow> int list" where
  "range_py n = map int [0..<nat n]"

subsection \<open>TempoTimeSigMarkerWrapper\<close>

record TempoTimeSigMarkerWrapper =
  deferred :: bool
  retval :: "bool option"
  proj :: int
  ptidx :: int
  timepos :: real
  measurepos :: int
  beatpos :: real
  bpm :: real
  timesig_num :: int
  timesig_denom :: int
  lineartempo :: bool

text \<open>
  \<^verbatim>\<open>create\<close>: a new marker (ptidx \<open>-1\<close>) with the wrapper's fields; raises
  when the host refuses it.
\<close>

definition create :: "reaper \<Rightarrow> TempoTimeSigMarkerWrapper \<Rightarrow> unit io" where
  "create h self =
     bind (call (SetTempoTimeSigMarker (proj self) (- 1) (timepos self) (measurepos self)
                   (beatpos self) (bpm self) (timesig_num self) (timesig_denom self)
                   (lineartempo self)))
       (\<lambda>_. bind (query (SetTempoTimeSigMarker_ok h))
         (\<lambda>ok. if \<not> ok then raise ValueError else ret ()))"

definition initByIdSearch ::
  "reaper \<Rightarrow> TempoTimeSigMarkerWrapper \<Rightarrow> int \<Rightarrow> int \<Rightarrow> TempoTimeSigMarkerWrapper io" where
  "initByIdSearch h self proj' ptidx' =
     bind (query (\<lambda>tr. GetTempoTimeSigMarker h tr proj' ptidx'))
       (\<lambda>(rv, timeposOut, measureposOut, beatposOut, bpmOut, numOut, denomOut, linearOut).
          ret (self\<lparr>retval := Some rv, proj := proj', ptidx := ptidx',
                 timepos := timeposOut, measurepos := measureposOut, beatpos := beatposOut,
                 bpm := bpmOut, timesig_num := numOut, timesig_denom := denomOut,
                 lineartempo := linearOut\<rparr>))"

text \<open>
  The constructor. \<open>ptidx = None\<close> defers creation, a non-negative ptidx loads the
  host's marker of that index, a negative one creates a marker at once. On the last
  path the source leaves the attribute ptidx unassigned; the record has \<open>-1\<close> there,
  and no caller reads it before assigning it.
\<close>

definition TempoTimeSigMarkerWrapper_init ::
  "reaper \<Rightarrow> int \<Rightarrow> int option \<Rightarrow> real \<Rightarrow> real \<Rightarrow> int \<Rightarrow> int \<Rightarrow>
   TempoTimeSigMarkerWrapper io" where
  "TempoTimeSigMarkerWrapper_init h proj' ptidx' timepos' bpm' num denom =
     (let self = \<lparr>deferred = False, retval = None, proj = proj', ptidx = - 1,
                   timepos = timepos', measurepos = - 1, beatpos = - 1, bpm = bpm',
                   timesig_num = num, timesig_denom = denom, lineartempo = False\<rparr>
      in case ptidx' of
           None \<Rightarrow> ret (self\<lparr>deferred := True, ptidx := - 1\<rparr>)
         | Some i \<Rightarrow>
             if i \<ge> 0 then initByIdSearch h self proj' i
             else bind (create h self) (\<lambda>_. ret (self\<lparr>deferred := False\<rparr>)))"

text \<open>\<^verbatim>\<open>set\<close>: rewrite the marker of this ptidx; the host's answer is kept in retval.\<close>

definition set_py ::
  "reaper \<Rightarrow> TempoTimeSigMarkerWrapper \<Rightarrow> bool \<Rightarrow> TempoTimeSigMarkerWrapper io" where
  "set_py h self use_timepos =
     (let (timepos', measurepos', beatpos') =
            (if use_timepos then (timepos self, - 1, - 1)
             else (- 1, measurepos self, beatpos self))
      in bind (call (SetTempoTimeSigMarker (proj self) (ptidx self) timepos' measurepos'
                       beatpos' (bpm self) (timesig_num self) (timesig_denom self)
                       (lineartempo self)))
           (\<lambda>_. bind (query (SetTempoTimeSigMarker_ok h))
             (\<lambda>ok. ret (self\<lparr>retval := Some ok\<rparr>))))"

definition clone ::
  "reaper \<Rightarrow> TempoTimeSigMarkerWrapper \<Rightarrow> real \<Rightarrow> bool \<Rightarrow> bool \<Rightarrow>
   TempoTimeSigMarkerWrapper io" where
  "clone h self time_value is_offset deferred_arg =
     bind (TempoTimeSigMarkerWrapper_init h (proj self) (Some (ptidx self)) 0 0 0 0)
       (\<lambda>cloned0.
          let cloned = cloned0\<lparr>timepos :=
                         (if is_offset then timepos self + time_value else time_value)\<rparr>;
              cloned = cloned\<lparr>timesig_num := timesig_num self,
                              timesig_denom := timesig_denom self,
                              bpm := bpm self, lineartempo := lineartempo self\<rparr>;
              cloned = cloned\<lparr>ptidx := - 1\<rparr>
          in if \<not> timepos cloned \<ge> 0 then raise AssertionError
             else if \<not> deferred_arg then set_py h cloned True
             else ret cloned)"

definition remove :: "TempoTimeSigMarkerWrapper \<Rightarrow> unit io" where
  "remove self = call (DeleteTempoTimeSigMarker (proj self) (ptidx self))"

text \<open>Python dictionaries with time positions as keys: association lists.\<close>

type_synonym sigdict = "(real \<times> TempoTimeSigMarkerWrapper) list"

definition keys :: "sigdict \<Rightarrow> real list" where
  "keys d = map fst d"

definition setitem :: "sigdict \<Rightarrow> real \<Rightarrow> TempoTimeSigMarkerWrapper \<Rightarrow> sigdict" where
  "setitem d k v = AList.update k v d"

definition getitem :: "sigdict \<Rightarrow> real \<Rightarrow> error + TempoTimeSigMarkerWrapper" where
  "getitem d k = (case map_of d k of None \<Rightarrow> Inl KeyError | Some v \<Rightarrow> Inr v)"

text \<open>\<^verbatim>\<open>d.update(other)\<close>: every entry of \<open>other\<close> is stored in \<open>d\<close>.\<close>

definition update_py :: "sigdict \<Rightarrow> sigdict \<Rightarrow> sigdict" where
  "update_py d other = fold (\<lambda>(k, v) acc. setitem acc k v) other d"

text \<open>List indexing; an index out of range raises IndexError.\<close>

definition index :: "'a list \<Rightarrow> nat \<Rightarrow> error + 'a" where
  "index xs i = (if i < length xs then Inr (xs ! i) else Inl IndexError)"

subsection \<open>Redundant signatures\<close>

definition equivalentSigs :: "TempoTimeSigMarkerWrapper \<Rightarrow> TempoTimeSigMarkerWrapper \<Rightarrow> bool" where
  "equivalentSigs sig1 sig2 \<longleftrightarrow>
     bpm sig1 = bpm sig2 \<and> timesig_num sig1 = timesig_num sig2 \<and>
     timesig_denom sig1 = timesig_denom sig2 \<and> lineartempo sig1 = lineartempo sig2"

text \<open>
  The loop of \<^verbatim>\<open>getNonRedundantSigTimes\<close> over
  \<^verbatim>\<open>enumerate(sigtimes_r[0:-1])\<close>; \<^verbatim>\<open>nrkeys.insert(0, t)\<close> puts \<open>t\<close> in front.
\<close>

fun nrkeys_loop ::
  "sigdict \<Rightarrow> real list \<Rightarrow> (nat \<times> real) list \<Rightarrow> real list \<Rightarrow> error + real list" where
  "nrkeys_loop sigd sigtimes_r [] nrkeys = Inr nrkeys"
| "nrkeys_loop sigd sigtimes_r ((i, t) # rest) nrkeys =
     (case index sigtimes_r i of Inl e \<Rightarrow> Inl e | Inr ti \<Rightarrow>
     (case getitem sigd ti of Inl e \<Rightarrow> Inl e | Inr current \<Rightarrow>
     (case index sigtimes_r (i + 1) of Inl e \<Rightarrow> Inl e | Inr ti1 \<Rightarrow>
     (case getitem sigd ti1 of Inl e \<Rightarrow> Inl e | Inr previous \<Rightarrow>
        nrkeys_loop sigd sigtimes_r rest
          (if \<not> equivalentSigs previous current then t # nrkeys else nrkeys)))))"

definition getNonRedundantSigTimes :: "sigdict \<Rightarrow> error + real list" where
  "getNonRedundantSigTimes sigd =
     (let sigtimes_r = rev (sort (keys sigd))
      in nrkeys_loop sigd sigtimes_r (enumerate 0 (butlast sigtimes_r)) [])"

subsection \<open>MediaItemReplicator\<close>

record MediaItemReplicator =
  proj_item :: int
  iid :: MediaItem
  pos :: real
  length_item :: real
  end_item :: real
  posbeats :: real
  poscml :: int
  poscdenom :: int
  posbpm :: real
  endbeats :: real
  endcml :: int
  endcdenom :: int
  endbpm :: real
  tempotimesiglist :: "TempoTimeSigMarkerWrapper list"
  intime :: real
  outtime :: real

text \<open>
  The constructor reads the item and the beat information at its start and at its end.
  When the end is less than \<open>.001\<close> beats after a barline, the length is reduced by
  \<open>.001\<close> and the information at the end is read again. A tempo of zero makes the
  division \<^verbatim>\<open>60./bpm\<close> raise.
\<close>

definition MediaItemReplicator_init ::
  "reaper \<Rightarrow> int \<Rightarrow> int \<Rightarrow> TempoTimeSigMarkerWrapper list \<Rightarrow> bool \<Rightarrow>
   MediaItemReplicator io" where
  "MediaItemReplicator_init h proj' itemid tempotimesiglist' id_is_index tr =
     (let iid' = (if id_is_index then GetSelectedMediaItem h tr proj' itemid else itemid);
          pos' = GetMediaItemInfo_Value h tr iid' ''D_POSITION'';
          length0 = GetMediaItemInfo_Value h tr iid' ''D_LENGTH'';
          end0 = pos' + length0;
          (posbeats', poscml', poscdenom') = TimeMap2_timeToBeats h tr proj' pos';
          posbpm' = TimeMap2_GetDividedBpmAtTime h tr proj' pos';
          (endbeats0, endcml0, endcdenom0) = TimeMap2_timeToBeats h tr proj' end0;
          endbpm0 = TimeMap2_GetDividedBpmAtTime h tr proj' end0;
          (length', end', (endbeats', endcml', endcdenom'), endbpm') =
            (if endbeats0 < 1 / 1000 then
               (let length1 = length0 - 1 / 1000;
                    end1 = pos' + length1
                in (length1, end1, TimeMap2_timeToBeats h tr proj' end1,
                    TimeMap2_GetDividedBpmAtTime h tr proj' end1))
             else (length0, end0, (endbeats0, endcml0, endcdenom0), endbpm0))
      in if posbpm' = 0 then raise ZeroDivisionError tr
         else
           (let intimebeats = posbeats';
                secondsperbeat = 60 / posbpm';
                intime' = secondsperbeat * intimebeats
            in if endbpm' = 0 then raise ZeroDivisionError tr
               else
                 (let outtimebeats = real_of_int endcml' - endbeats';
                      secondsperbeat = 60 / endbpm';
                      outtime' = outtimebeats * secondsperbeat
                  in ret \<lparr>proj_item = proj', iid = iid', pos = pos',
                           length_item = length', end_item = end',
                           posbeats = posbeats', poscml = poscml', poscdenom = poscdenom',
                           posbpm = posbpm', endbeats = endbeats', endcml = endcml',
                           endcdenom = endcdenom', endbpm = endbpm',
                           tempotimesiglist = tempotimesiglist',
                           intime = intime', outtime = outtime'\<rparr> tr)))"

text \<open>
  The first loop of \<^verbatim>\<open>replicate\<close>: the markers inside the item, and the marker
  in effect at its start.
\<close>

fun scan_sigs ::
  "MediaItemReplicator \<Rightarrow> TempoTimeSigMarkerWrapper list \<Rightarrow>
   TempoTimeSigMarkerWrapper list \<times> TempoTimeSigMarkerWrapper \<Rightarrow>
   TempoTimeSigMarkerWrapper list \<times> TempoTimeSigMarkerWrapper" where
  "scan_sigs self [] (itemsigs, insig) = (itemsigs, insig)"
| "scan_sigs self (sig # sigs) (itemsigs, insig) =
     scan_sigs self sigs
       (if pos self \<le> timepos sig \<and> timepos sig < pos self + length_item self
        then itemsigs @ [sig] else itemsigs,
        if timepos sig \<le> pos self + 1 / 1000 then sig else insig)"

definition select_sigs ::
  "MediaItemReplicator \<Rightarrow>
   error + TempoTimeSigMarkerWrapper list \<times> TempoTimeSigMarkerWrapper" where
  "select_sigs self =
     (case index (tempotimesiglist self) 0 of
        Inl e \<Rightarrow> Inl e
      | Inr insig0 \<Rightarrow> Inr (scan_sigs self (tempotimesiglist self) ([], insig0)))"

text \<open>\<^verbatim>\<open>for sig in itemsigs: newpos = t; incountsigd[t] = sig.clone(newpos - self.pos, deferred=True)\<close>\<close>

fun clone_itemsigs ::
  "reaper \<Rightarrow> MediaItemReplicator \<Rightarrow> TempoTimeSigMarkerWrapper list \<Rightarrow> real \<Rightarrow> sigdict \<Rightarrow>
   sigdict io" where
  "clone_itemsigs h self [] t incountsigd = ret incountsigd"
| "clone_itemsigs h self (sig # sigs) t incountsigd =
     (let newpos = t
      in bind (clone h sig (newpos - pos self) True True)
           (\<lambda>cloned. clone_itemsigs h self sigs t (setitem incountsigd t cloned)))"

text \<open>The loop over \<^verbatim>\<open>range(ndups)\<close>, one round per duplicate.\<close>

fun dup_loop ::
  "reaper \<Rightarrow> MediaItemReplicator \<Rightarrow> TempoTimeSigMarkerWrapper \<Rightarrow>
   TempoTimeSigMarkerWrapper list \<Rightarrow> real \<Rightarrow> int list \<Rightarrow> real \<times> sigdict \<Rightarrow>
   (real \<times> sigdict) io" where
  "dup_loop h self insig itemsigs betweentime [] (t, incountsigd) = ret (t, incountsigd)"
| "dup_loop h self insig itemsigs betweentime (_ # rounds) (t, incountsigd) =
     bind (TempoTimeSigMarkerWrapper_init h (proj_item self) None t (bpm insig)
             (timesig_num insig) (timesig_denom insig))
       (\<lambda>w.
          let incountsigd1 = setitem incountsigd t w;
              t1 = t + (betweentime + intime self)
          in bind (clone_itemsigs h self itemsigs t1 incountsigd1)
               (\<lambda>incountsigd2.
                  let nudge = length_item self + outtime self + betweentime + intime self;
                      fbyvalue = 0;
                      fduplicate = 5;
                      fseconds = 1;
                      freverse = False
                  in bind (call (ApplyNudge (proj_item self) fbyvalue fduplicate fseconds
                                   nudge freverse 1))
                       (\<lambda>_. dup_loop h self insig itemsigs betweentime rounds
                              (t1 + (length_item self + outtime self), incountsigd2))))"

definition replicate_item ::
  "reaper \<Rightarrow> MediaItemReplicator \<Rightarrow> real \<Rightarrow> int \<Rightarrow> int \<Rightarrow> (real \<times> sigdict) io" where
  "replicate_item h self t0 ndups nbetween =
     bind (lift (select_sigs self))
       (\<lambda>(itemsigs, insig).
          bind (call (SetMediaItemSelected (iid self) True))
            (\<lambda>_. bind (TempoTimeSigMarkerWrapper_init h (proj_item self) None t0 (bpm insig)
                          (timesig_num insig) (timesig_denom insig))
            (\<lambda>w.
               let incountsigd = setitem [] t0 w
               in if posbpm self = 0 then raise ZeroDivisionError
                  else
                    (let betweentime =
                           real_of_int (nbetween * poscml self) * 60 / posbpm self;
                         t = t0 + (betweentime + intime self)
                     in bind (if t > pos self
                              then call (SetMediaItemInfo_Value (iid self) ''D_POSITION'' t)
                              else ret ())
                        (\<lambda>_. bind (clone_itemsigs h self itemsigs t incountsigd)
                        (\<lambda>incountsigd1.
                           bind (dup_loop h self insig itemsigs betweentime (range_py ndups)
                                   (t + length_item self + outtime self, incountsigd1))
                           (\<lambda>(t', incountsigd2).
                              bind (call (SetMediaItemSelected (iid self) False))
                                (\<lambda>_. ret (t', incountsigd2)))))))))"

subsection \<open>The run\<close>

text \<open>How \<^verbatim>\<open>run\<close> ends when nothing is raised: by an early return, or at its end.\<close>

datatype run_exit = Cancelled | Done

text \<open>The loop over the items of the track.\<close>

fun replicate_trackitems ::
  "reaper \<Rightarrow> MediaItem list \<Rightarrow> int \<Rightarrow> int \<Rightarrow> MediaItemReplicator list \<Rightarrow>
   real \<times> sigdict \<Rightarrow> (real \<times> sigdict) io" where
  "replicate_trackitems h selectediids ndups nbetween [] (endt, incountsigd) =
     ret (endt, incountsigd)"
| "replicate_trackitems h selectediids ndups nbetween (item # items) (endt, incountsigd) =
     bind (if iid item \<in> set selectediids
           then replicate_item h item endt ndups nbetween
           else replicate_item h item endt 0 nbetween)
       (\<lambda>(endt', incountsigd').
          replicate_trackitems h selectediids ndups nbetween items
            (endt', update_py incountsigd incountsigd'))"

text \<open>
  \<^verbatim>\<open>run\<close>, in the order of the source. First the part that only reads the host:
  the wrappers of all markers, the selected items, their track, and all items of that
  track. It gives \<open>None\<close> where the source returns early because the selected items
  are not in one track.
\<close>

definition gather ::
  "reaper \<Rightarrow>
   (TempoTimeSigMarkerWrapper list \<times> MediaItem list \<times> MediaItemReplicator list) option io" where
  "gather h =
     bind (query (\<lambda>tr. CountTempoTimeSigMarkers h tr 0))
       (\<lambda>nsig.
     let sigids = range_py nsig; proj0 = 0
     in bind (mapM (\<lambda>sigid. TempoTimeSigMarkerWrapper_init h proj0 (Some sigid) 0 0 0 0) sigids)
       (\<lambda>siglist.
     bind (query (\<lambda>tr. CountSelectedMediaItems h tr 0))
       (\<lambda>nitems.
     bind (mapM (\<lambda>itemid. MediaItemReplicator_init h proj0 itemid siglist True)
             (range_py nitems))
       (\<lambda>items.
     let selectediids = map iid items
     in bind (query (\<lambda>tr. map (\<lambda>i. GetMediaItem_Track h tr (iid i)) items))
       (\<lambda>tracks.
     if length (remdups tracks) \<noteq> 1 then ret None
     else
     bind (lift (index tracks 0))
       (\<lambda>track.
     bind (query (\<lambda>tr. CountTrackMediaItems h tr track))
       (\<lambda>ntrackitems.
     bind (mapM (\<lambda>titemid.
                   bind (query (\<lambda>tr. GetTrackMediaItem h tr track titemid))
                     (\<lambda>itemref. MediaItemReplicator_init h proj0 itemref siglist False))
             (range_py ntrackitems))
       (\<lambda>trackitems. ret (Some (siglist, selectediids, trackitems))))))))))"

text \<open>
  The creation of the incount signatures at the end of \<^verbatim>\<open>run\<close>: the markers stored
  under the non-redundant times are created, in ascending order of these times.
\<close>

definition create_incountsigs :: "reaper \<Rightarrow> sigdict \<Rightarrow> unit io" where
  "create_incountsigs h incountsigd =
     bind (lift (getNonRedundantSigTimes incountsigd))
       (\<lambda>sigtimes.
     for_each sigtimes (\<lambda>t. bind (lift (getitem incountsigd t)) (create h)))"

text \<open>
  Between the two calls of \<^verbatim>\<open>RPR_PreventUIRefresh\<close>: the old markers are removed,
  latest first, all items are unselected, every item of the track is replicated, and the
  incount signatures are created.
\<close>

definition rebuild ::
  "reaper \<Rightarrow> int \<Rightarrow> int \<Rightarrow> TempoTimeSigMarkerWrapper list \<Rightarrow> MediaItem list \<Rightarrow>
   MediaItemReplicator list \<Rightarrow> unit io" where
  "rebuild h ndups nbetween siglist selectediids trackitems =
     bind (for_each (rev siglist) remove)
       (\<lambda>_.
     bind (call (SelectAllMediaItems 0 False))
       (\<lambda>_.
     bind (replicate_trackitems h selectediids ndups nbetween trackitems (0, []))
       (\<lambda>(endt, incountsigd). create_incountsigs h incountsigd)))"

definition run :: "reaper \<Rightarrow> run_exit io" where
  "run h =
     (case userInputs h of
        UNone \<Rightarrow> ret Cancelled
      | UFalse \<Rightarrow> ret Cancelled
      | UMap ndups nbetween \<Rightarrow>
          if ndups < 0 then ret Cancelled
          else if nbetween < 0 then ret Cancelled
          else
            bind (gather h)
              (\<lambda>gathered.
                 case gathered of
                   None \<Rightarrow> ret Cancelled
                 | Some (siglist, selectediids, trackitems) \<Rightarrow>
                     bind (call (PreventUIRefresh 1))
                       (\<lambda>_.
                     bind (rebuild h ndups nbetween siglist selectediids trackitems)
                       (\<lambda>_.
                     bind (call (PreventUIRefresh (- 1)))
                       (\<lambda>_.
                     bind (call UpdateArrange)
                       (\<lambda>_. ret Done))))))"


section \<open>Auxiliary definitions\<close>

text \<open>The value stored under a key of a dictionary.\<close>

definition valof :: "sigdict \<Rightarrow> real \<Rightarrow> TempoTimeSigMarkerWrapper" where
  "valof d k = (case map_of d k of Some v \<Rightarrow> v | None \<Rightarrow> undefined)"

text \<open>The call by which \<^verbatim>\<open>create\<close> asks the host for a new marker.\<close>

definition create_call :: "TempoTimeSigMarkerWrapper \<Rightarrow> host_call" where
  "create_call w =
     SetTempoTimeSigMarker (proj w) (- 1) (timepos w) (measurepos w) (beatpos w) (bpm w)
       (timesig_num w) (timesig_denom w) (lineartempo w)"

fun desc :: "(real \<Rightarrow> TempoTimeSigMarkerWrapper) \<Rightarrow> real list \<Rightarrow> real list" where
  "desc v (c # p # rest) = (if \<not> equivalentSigs (v p) (v c) then c # desc v (p # rest) else desc v (p # rest))"
| "desc v _ = []"

fun nonred :: "(real \<Rightarrow> TempoTimeSigMarkerWrapper) \<Rightarrow> real \<Rightarrow> real list \<Rightarrow> real list" where
  "nonred v p [] = []"
| "nonred v p (x # xs) = (if \<not> equivalentSigs (v p) (v x) then x # nonred v x xs else nonred v x xs)"





text \<open>Example data: a deferred marker in 4/4 at time \<open>t\<close> with tempo \<open>b\<close>.\<close>

definition marker :: "real \<Rightarrow> real \<Rightarrow> TempoTimeSigMarkerWrapper" where
  "marker t b = \<lparr>deferred = True, retval = None, proj = 0, ptidx = - 1, timepos = t,
     measurepos = - 1, beatpos = - 1, bpm = b, timesig_num = 4, timesig_denom = 4,
     lineartempo = False\<rparr>"


definition four_markers :: sigdict where
  "four_markers = [(6, marker 6 90), (0, marker 0 120), (12, marker 12 90), (18, marker 18 60)]"

text \<open>
  A host with two markers (tempo 120 at 0, tempo 90 at 6) and one item, selected, of
  length 4 at position 4, in 4/4 at 120 beats per minute, that accepts every marker; the
  user asks for one duplicate and one measure between items.
\<close>

definition host_120 :: reaper where
  "host_120 = \<lparr>
     userInputs = UMap 1 1,
     CountTempoTimeSigMarkers = (\<lambda>tr p. 2),
     GetTempoTimeSigMarker = (\<lambda>tr p i.
        if i = 0 then (True, 0, 0, 0, 120, 4, 4, False) else (True, 6, 0, 0, 90, 4, 4, False)),
     SetTempoTimeSigMarker_ok = (\<lambda>tr. True),
     CountSelectedMediaItems = (\<lambda>tr p. 1),
     GetSelectedMediaItem = (\<lambda>tr p i. 7),
     GetMediaItemInfo_Value = (\<lambda>tr item name. 4),
     TimeMap2_timeToBeats = (\<lambda>tr p t. (if t = 4 then 0 else 2, 4, 4)),
     TimeMap2_GetDividedBpmAtTime = (\<lambda>tr p t. 120),
     GetMediaItem_Track = (\<lambda>tr item. 1),
     CountTrackMediaItems = (\<lambda>tr track. 1),
     GetTrackMediaItem = (\<lambda>tr track i. 7)\<rparr>"


definition host_negative :: reaper where
  "host_negative = host_120\<lparr>userInputs := UMap (- 1) 1\<rparr>"


text \<open>A marker as loaded from the host: index \<open>i\<close>, time \<open>t\<close>, tempo \<open>b\<close>, in 4/4.\<close>

definition host_sig :: "int \<Rightarrow> real \<Rightarrow> real \<Rightarrow> TempoTimeSigMarkerWrapper" where
  "host_sig i t b = \<lparr>deferred = False, retval = Some True, proj = 0, ptidx = i, timepos = t,
     measurepos = 0, beatpos = 0, bpm = b, timesig_num = 4, timesig_denom = 4,
     lineartempo = False\<rparr>"

text \<open>
  An item of length 4 at position 4 that starts and ends on a barline (intime and outtime
  0), in 4/4 at 120 beats per minute, with the given list of markers.
\<close>

definition clip :: "TempoTimeSigMarkerWrapper list \<Rightarrow> MediaItemReplicator" where
  "clip sigs = \<lparr>proj_item = 0, iid = 7, pos = 4, length_item = 4, end_item = 8,
     posbeats = 0, poscml = 4, poscdenom = 4, posbpm = 120,
     endbeats = 4, endcml = 4, endcdenom = 4, endbpm = 120,
     tempotimesiglist = sigs, intime = 0, outtime = 0\<rparr>"



definition clip_inner :: MediaItemReplicator where
  "clip_inner = clip [host_sig 0 0 120, host_sig 1 6 90]"

definition clip_three :: MediaItemReplicator where
  "clip_three = clip [host_sig 0 0 120, host_sig 1 3 100, host_sig 2 6 90]"

section \<open>Non-redundant signature times\<close>

lemma getitem_in: "k \<in> set (keys d) \<Longrightarrow> getitem d k = Inr (valof d k)"
  by (auto simp: getitem_def valof_def keys_def map_of_eq_None_iff split: option.splits)

lemma index_drop: "drop n xs = y # ys \<Longrightarrow> index xs n = Inr y"
  by (metis Cons_nth_drop_Suc drop_all index_def linorder_not_less list.discI list.inject)

lemma nrkeys_loop_desc:
  "drop n sr = ys \<Longrightarrow> set sr \<subseteq> set (keys d) \<Longrightarrow>
   nrkeys_loop d sr (enumerate n (butlast ys)) acc = Inr (rev (desc (valof d) ys) @ acc)"
proof (induction ys arbitrary: n acc)
  case Nil
  then show ?case by simp
next
  case (Cons c ys')
  show ?case
  proof (cases ys')
    case Nil
    then show ?thesis by simp
  next
    case (Cons p rest)
    have dn: "drop (Suc n) sr = ys'"
      using Cons.prems(1) by (metis drop_Suc list.sel(3) tl_drop)
    have i0: "index sr n = Inr c" using Cons.prems(1) by (rule index_drop)
    have i1: "index sr (Suc n) = Inr p" using dn Cons by (simp add: index_drop)
    have cin: "c \<in> set sr" using Cons.prems(1) by (metis in_set_dropD list.set_intros(1))
    have pin: "p \<in> set sr" using dn Cons by (metis in_set_dropD list.set_intros(1))
    have g0: "getitem d c = Inr (valof d c)" using cin Cons.prems(2) by (auto intro: getitem_in)
    have g1: "getitem d p = Inr (valof d p)" using pin Cons.prems(2) by (auto intro: getitem_in)
    show ?thesis
      using Cons.IH[OF dn Cons.prems(2)] Cons i0 i1 g0 g1 by simp
  qed
qed

lemma desc_snoc:
  "desc v (ys @ [p]) = desc v ys @ (if ys \<noteq> [] \<and> \<not> equivalentSigs (v p) (v (last ys)) then [last ys] else [])"
  by (induction v ys rule: desc.induct) auto

lemma rev_desc_rev: "rev (desc v (rev xs @ [p])) = nonred v p xs"
proof (induction xs arbitrary: p)
  case Nil
  then show ?case by simp
next
  case (Cons x xs)
  have "desc v (rev (x # xs) @ [p]) = desc v ((rev xs @ [x]) @ [p])" by simp
  also have "\<dots> = desc v (rev xs @ [x]) @ (if \<not> equivalentSigs (v p) (v x) then [x] else [])"
    by (subst desc_snoc) simp
  finally show ?case using Cons.IH[of x] by simp
qed

lemma getNonRedundantSigTimes_nonred:
  "getNonRedundantSigTimes d =
     Inr (case sort (keys d) of [] \<Rightarrow> [] | p # xs \<Rightarrow> nonred (valof d) p xs)"
proof -
  let ?sr = "rev (sort (keys d))"
  have "nrkeys_loop d ?sr (enumerate 0 (butlast ?sr)) [] = Inr (rev (desc (valof d) ?sr) @ [])"
    by (rule nrkeys_loop_desc) auto
  moreover have "rev (desc (valof d) ?sr) = (case sort (keys d) of [] \<Rightarrow> [] | p # xs \<Rightarrow> nonred (valof d) p xs)"
    by (cases "sort (keys d)") (auto simp: rev_desc_rev)
  ultimately show ?thesis by (simp add: getNonRedundantSigTimes_def Let_def)
qed

lemma set_nonred: "set (nonred v p xs) \<subseteq> set xs"
  by (induction xs arbitrary: p) auto

lemma length_nonred: "length (nonred v p xs) \<le> length xs"
  by (induction xs arbitrary: p) (auto simp: le_SucI)











lemma getNonRedundantSigTimes_four_markers:
  "getNonRedundantSigTimes four_markers = Inr [6, 18]"
  by (simp add: getNonRedundantSigTimes_def four_markers_def keys_def index_def getitem_def
      equivalentSigs_def marker_def enumerate_eq_zip upt_rec)

lemma create_eq:
  "create h w tr =
     (if SetTempoTimeSigMarker_ok h (tr @ [create_call w]) then Inr () else Inl ValueError,
      tr @ [create_call w])"
  by (simp add: create_def create_call_def bind_def call_def query_def raise_def ret_def)

lemma for_each_create:
  assumes "set ks \<subseteq> set (keys d)"
  shows "\<exists>n\<le>length ks.
           snd (for_each ks (\<lambda>t. bind (lift (getitem d t)) (create h)) tr) =
           tr @ map (\<lambda>k. create_call (valof d k)) (take n ks)"
  using assms
proof (induction ks arbitrary: tr)
  case Nil
  then show ?case by (simp add: ret_def)
next
  case (Cons k ks)
  let ?c = "create_call (valof d k)"
  have g: "getitem d k = Inr (valof d k)" using Cons.prems by (simp add: getitem_in)
  show ?case
  proof (cases "SetTempoTimeSigMarker_ok h (tr @ [?c])")
    case False
    then have "snd (for_each (k # ks) (\<lambda>t. bind (lift (getitem d t)) (create h)) tr) =
               tr @ map (\<lambda>k. create_call (valof d k)) (take 1 (k # ks))"
      by (simp add: bind_def lift_def g create_eq)
    then show ?thesis by (intro exI[of _ 1]) simp
  next
    case True
    from Cons.IH[of "tr @ [?c]"] Cons.prems obtain n where
      n: "n \<le> length ks" and
      s: "snd (for_each ks (\<lambda>t. bind (lift (getitem d t)) (create h)) (tr @ [?c])) =
          (tr @ [?c]) @ map (\<lambda>k. create_call (valof d k)) (take n ks)"
      by auto
    have "snd (for_each (k # ks) (\<lambda>t. bind (lift (getitem d t)) (create h)) tr) =
          tr @ map (\<lambda>k. create_call (valof d k)) (take (Suc n) (k # ks))"
      using True s by (simp add: bind_def lift_def g create_eq)
    then show ?thesis using n by (intro exI[of _ "Suc n"]) simp
  qed
qed

text \<open>
  C9: for a non-empty dictionary, \<^verbatim>\<open>getNonRedundantSigTimes\<close> returns a list that
  never contains the smallest key and that has at most one entry less than the
  dictionary has keys; the creation of the incount signatures calls the host only for
  markers stored under times of that list, in their order, so never for the marker
  stored under the smallest key.
\<close>

theorem getNonRedundantSigTimes_excludes_earliest:
  assumes "sigd \<noteq> []" and "distinct (keys sigd)"
  shows "\<exists>ks. getNonRedundantSigTimes sigd = Inr ks \<and>
              Min (set (keys sigd)) \<notin> set ks \<and>
              length ks \<le> length (keys sigd) - 1 \<and>
              (\<exists>n\<le>length ks.
                 snd (create_incountsigs h sigd tr) =
                 tr @ map (\<lambda>k. create_call (valof sigd k)) (take n ks))"
proof -
  let ?asc = "sort (keys sigd)"
  have "length ?asc = length sigd" by (simp add: keys_def)
  then have ne: "?asc \<noteq> []" using assms(1) by (metis length_0_conv)
  then obtain p xs where asc: "?asc = p # xs" by (cases ?asc) auto
  have srt: "sorted (p # xs)" and dst: "distinct (p # xs)"
    using asc assms(2) by (metis sorted_sort, metis distinct_sort)
  have st: "set (keys sigd) = set (p # xs)" using asc by (metis set_sort)
  have "Min (set (p # xs)) = p"
    using srt by (intro Min_eqI) auto
  then have mn: "Min (set (keys sigd)) = p" using st by simp
  define ks where "ks = nonred (valof sigd) p xs"
  have r: "getNonRedundantSigTimes sigd = Inr ks"
    by (simp add: getNonRedundantSigTimes_nonred asc ks_def)
  have sub: "set ks \<subseteq> set xs" unfolding ks_def by (rule set_nonred)
  have 1: "p \<notin> set ks" using dst sub by auto
  have 2: "length ks \<le> length (keys sigd) - 1"
  proof -
    have "length (keys sigd) = Suc (length xs)" using asc by (metis length_sort length_Cons)
    then show ?thesis using length_nonred[of "valof sigd" p xs] by (simp add: ks_def)
  qed
  have "set ks \<subseteq> set (keys sigd)" using sub st by auto
  from for_each_create[OF this, of h tr] obtain n where
    "n \<le> length ks"
    "snd (for_each ks (\<lambda>t. bind (lift (getitem sigd t)) (create h)) tr) =
     tr @ map (\<lambda>k. create_call (valof sigd k)) (take n ks)" by blast
  then have 3: "\<exists>n\<le>length ks.
                 snd (create_incountsigs h sigd tr) =
                 tr @ map (\<lambda>k. create_call (valof sigd k)) (take n ks)"
    by (auto simp: create_incountsigs_def bind_def lift_def r)
  show ?thesis using r mn 1 2 3 by blast
qed

lemma create_incountsigs_four_markers:
  "create_incountsigs host_120 four_markers [] =
     (Inr (), [create_call (marker 6 90), create_call (marker 18 60)])"
  by code_simp

theorem getNonRedundantSigTimes_excludes_earliest_witness:
  "four_markers \<noteq> [] \<and> distinct (keys four_markers) \<and>
   getNonRedundantSigTimes four_markers = Inr [6, 18] \<and>
   Min (set (keys four_markers)) = 0 \<and> 0 \<notin> set [6, 18 :: real] \<and>
   length [6, 18 :: real] \<le> length (keys four_markers) - 1 \<and>
   create_incountsigs host_120 four_markers [] =
     (Inr (), [create_call (marker 6 90), create_call (marker 18 60)])"
  using getNonRedundantSigTimes_excludes_earliest[of four_markers host_120 "[]"]
    getNonRedundantSigTimes_four_markers create_incountsigs_four_markers
  by (simp add: four_markers_def keys_def)




section \<open>Construction of an item\<close>




section \<open>Replication of one item\<close>






lemma clone_deferred_timepos:
  "clone h sig v True True tr = (Inr c, tr') \<Longrightarrow>
     timepos c = timepos sig + v \<and> bpm c = bpm sig \<and> timesig_num c = timesig_num sig \<and>
     timesig_denom c = timesig_denom sig \<and> lineartempo c = lineartempo sig \<and> ptidx c = - 1"
  by (auto simp: clone_def TempoTimeSigMarkerWrapper_init_def initByIdSearch_def create_def
      bind_def query_def ret_def raise_def call_def Let_def
      split: if_splits prod.splits sum.splits)








lemma scan_sigs_eq:
  "scan_sigs self sigs (itemsigs, insig) =
     (itemsigs @ filter (\<lambda>s. pos self \<le> timepos s \<and> timepos s < pos self + length_item self) sigs,
      last (insig # filter (\<lambda>s. timepos s \<le> pos self + 1 / 1000) sigs))"
  by (induction sigs arbitrary: itemsigs insig) auto

lemma select_sigs_eq:
  "select_sigs self =
     (case tempotimesiglist self of [] \<Rightarrow> Inl IndexError
      | sig0 # _ \<Rightarrow>
          Inr (filter (\<lambda>s. pos self \<le> timepos s \<and> timepos s < pos self + length_item self)
                 (tempotimesiglist self),
               last (sig0 # filter (\<lambda>s. timepos s \<le> pos self + 1 / 1000)
                 (tempotimesiglist self))))"
  by (simp add: select_sigs_def index_def scan_sigs_eq split: list.splits)




lemma sorted_map_last:
  "sorted (map f xs) \<Longrightarrow> x \<in> set xs \<Longrightarrow> f x \<le> f (last xs)"
proof (induction xs)
  case Nil
  then show ?case by simp
next
  case (Cons y ys)
  then show ?case by (cases ys) auto
qed

lemma sorted_map_hd:
  "sorted (map f xs) \<Longrightarrow> x \<in> set xs \<Longrightarrow> f (hd xs) \<le> f x"
  by (cases xs) auto

text \<open>
  C7: for a non-empty list of markers in ascending order of time, the lead-in marker
  chosen by \<^verbatim>\<open>replicate\<close> is a marker of the list with the latest time not above
  the item's position plus \<open>.001\<close>; when no marker is that early, it is the first
  marker of the list, which is the earliest.
\<close>

theorem select_sigs_leadin:
  assumes "tempotimesiglist self \<noteq> []"
    and "sorted (map timepos (tempotimesiglist self))"
  shows "\<exists>itemsigs insig. select_sigs self = Inr (itemsigs, insig) \<and>
           insig \<in> set (tempotimesiglist self) \<and>
           (if \<exists>s\<in>set (tempotimesiglist self). timepos s \<le> pos self + 1 / 1000
            then timepos insig \<le> pos self + 1 / 1000 \<and>
                 (\<forall>s\<in>set (tempotimesiglist self).
                     timepos s \<le> pos self + 1 / 1000 \<longrightarrow> timepos s \<le> timepos insig)
            else insig = hd (tempotimesiglist self) \<and>
                 (\<forall>s\<in>set (tempotimesiglist self). timepos insig \<le> timepos s))"
proof -
  let ?sigs = "tempotimesiglist self"
  let ?P = "\<lambda>s. timepos s \<le> pos self + 1 / 1000"
  obtain sig0 rest where sigs: "?sigs = sig0 # rest" using assms(1) by (cases ?sigs) auto
  define insig where "insig = last (sig0 # filter ?P ?sigs)"
  have sel: "select_sigs self =
    Inr (filter (\<lambda>s. pos self \<le> timepos s \<and> timepos s < pos self + length_item self) ?sigs, insig)"
    by (simp add: select_sigs_eq sigs insig_def)
  show ?thesis
  proof (cases "\<exists>s\<in>set ?sigs. ?P s")
    case True
    then have ne: "filter ?P ?sigs \<noteq> []" by (simp add: filter_empty_conv)
    then have il: "insig = last (filter ?P ?sigs)" by (simp add: insig_def)
    then have "insig \<in> set (filter ?P ?sigs)" using ne last_in_set by metis
    then have 1: "insig \<in> set ?sigs" and 2: "?P insig" by auto
    have srt: "sorted (map timepos (filter ?P ?sigs))"
      using assms(2) by (rule sorted_filter)
    have 3: "\<forall>s\<in>set ?sigs. ?P s \<longrightarrow> timepos s \<le> timepos insig"
      using sorted_map_last[OF srt] il by auto
    show ?thesis using True sel 1 2 3 by auto
  next
    case False
    then have "filter ?P ?sigs = []" by (simp add: filter_empty_conv)
    then have i0: "insig = hd ?sigs" by (simp add: insig_def sigs)
    then have 1: "insig \<in> set ?sigs" using sigs by simp
    have 3: "\<forall>s\<in>set ?sigs. timepos insig \<le> timepos s"
      using sorted_map_hd[OF assms(2)] i0 by auto
    show ?thesis using False sel i0 1 3 by auto
  qed
qed


lemma select_sigs_clip_three:
  "select_sigs clip_three = Inr ([host_sig 2 6 90], host_sig 1 3 100)"
  by (simp add: select_sigs_eq clip_three_def clip_def host_sig_def)

theorem select_sigs_leadin_witness:
  "tempotimesiglist clip_three \<noteq> [] \<and> sorted (map timepos (tempotimesiglist clip_three)) \<and>
   select_sigs clip_three = Inr ([host_sig 2 6 90], host_sig 1 3 100) \<and>
   timepos (host_sig 1 3 100) \<le> pos clip_three + 1 / 1000 \<and>
   \<not> timepos (host_sig 2 6 90) \<le> pos clip_three + 1 / 1000"
  using select_sigs_leadin[of clip_three] select_sigs_clip_three
  by (simp add: clip_three_def clip_def host_sig_def)

text \<open>
  C10: for an item with an empty list of markers, \<^verbatim>\<open>replicate\<close> raises IndexError,
  and no call to the host has been made by then.
\<close>

theorem replicate_item_empty_siglist:
  assumes "tempotimesiglist self = []"
  shows "replicate_item h self t0 ndups nbetween tr = (Inl IndexError, tr)"
  using assms by (simp add: replicate_item_def select_sigs_def index_def bind_def lift_def)

theorem replicate_item_empty_siglist_witness:
  "tempotimesiglist (clip []) = [] \<and>
   replicate_item host_120 (clip []) 0 2 1 [] = (Inl IndexError, [])"
  using replicate_item_empty_siglist[of "clip []" host_120 0 2 1 "[]"]
  by (simp add: clip_def)









text \<open>
  C3: an item at position 4 with a marker at 6, replicated from the cursor 10 with one
  measure between items, starts at 12. The clone of the marker has the time 14, its
  offset 2 into the item added to the new start, and the dictionary holds it under the
  key 12, the new start of the item.
\<close>

theorem replicate_item_clone_key:
  "select_sigs clip_inner = Inr ([host_sig 1 6 90], host_sig 0 0 120) \<and>
   replicate_item host_120 clip_inner 10 0 1 [] =
     (Inr (16, [(10, marker 10 120), (12, host_sig (- 1) 14 90)]),
      [SetMediaItemSelected 7 True, SetMediaItemInfo_Value 7 ''D_POSITION'' 12,
       SetMediaItemSelected 7 False])"
  by code_simp

section \<open>The run and the refresh of the user interface\<close>





























text \<open>
  C8: when the user enters a negative number of duplicates, \<^verbatim>\<open>run\<close> returns early
  and has made no call that changes the host: the trace of calls is as it was.
\<close>

theorem run_negative_ndups:
  assumes "userInputs h = UMap ndups nbetween" and "ndups < 0"
  shows "run h tr = (Inr Cancelled, tr)"
  using assms by (simp add: run_def ret_def)

theorem run_negative_ndups_witness:
  "userInputs host_negative = UMap (- 1) 1 \<and> (- 1 :: int) < 0 \<and>
   run host_negative [] = (Inr Cancelled, [])"
  using run_negative_ndups[of host_negative "- 1" 1 "[]"]
  by (simp add: host_negative_def host_120_def)





end
